theory Spec2Isabelle
  imports
    Complex_Main
    "HOL-Library.Char_ord"
    "HOL-Library.List_Lexorder"
    "HOL-Library.Option_ord"
    "HOL-Library.AList"
begin

section \<open>Data model\<close>

text \<open>
  The two tables created by \<^verbatim>\<open>create_database\<close> in \<^verbatim>\<open>data_processor.py\<close> and the
  response models of \<^verbatim>\<open>app/main.py\<close>.

  Conventions of the embedding:
  \<^item> TEXT is \<open>string\<close>, INTEGER and Python \<open>int\<close> are \<open>int\<close>, a nullable column is an
    \<open>option\<close> with \<open>None\<close> for NULL.
  \<^item> REAL and Python \<open>float\<close> are exact rationals (\<open>rat\<close>): \<open>AVG\<close> is the exact quotient
    and \<open>round\<close> rounds the exact value, the representation error of binary doubles is
    not part of the model.
  \<^item> The column \<open>created_at\<close> of both tables and the autoincrement key of \<open>song_ratings\<close>
    are never read by the program and are left out.
  \<^item> Text is a list of 8-bit characters; ordering is bytewise and case folding is that of
    SQLite, on the ASCII letters.
  \<^item> Integers handed to SQLite are taken to lie in its 64-bit range.
  \<^item> Of the generic \<open>except Exception\<close> branches only the failure that the handler's own
    code can cause is modelled, the validation of a row by \<open>Song\<close>; faults of the storage
    itself are not.
\<close>

record features =
  danceability :: "rat option"
  energy :: "rat option"
  key :: "int option"
  loudness :: "rat option"
  mode :: "int option"
  acousticness :: "rat option"
  instrumentalness :: "rat option"
  liveness :: "rat option"
  valence :: "rat option"
  tempo :: "rat option"
  duration_ms :: "int option"
  time_signature :: "int option"
  num_bars :: "int option"
  num_sections :: "int option"
  num_segments :: "int option"
  class_ :: "int option"

text \<open>A row of table \<open>songs\<close>: every column is nullable in the schema.\<close>

record song_row =
  songs_id :: "string option"
  songs_title :: "string option"
  songs_features :: features
  songs_star_rating :: "rat option"

text \<open>A row of table \<open>song_ratings\<close>: \<open>(song_id, rating)\<close>.\<close>

type_synonym rating_row = "string \<times> int"

record db =
  songs :: "song_row list"
  song_ratings :: "rating_row list"

text \<open>
  The pydantic models. In \<open>Song\<close>, \<open>id\<close> and \<open>title\<close> are required strings. The
  fields of \<open>SongResponse\<close> carry the prefix \<open>resp_\<close>.
\<close>

record Song =
  Song_id :: string
  Song_title :: string
  Song_features :: features
  Song_star_rating :: "rat option"

record SongResponse =
  resp_songs :: "Song list"
  resp_total :: int
  resp_page :: int
  resp_per_page :: int
  resp_total_pages :: int

record RatingResponse =
  song_id :: string
  average_rating :: rat
  total_ratings :: int

text \<open>
  \<open>RequestValidationError\<close> is what FastAPI answers (status 422) when a \<open>Query\<close> or
  \<open>Field\<close> bound is violated; \<open>HTTPException\<close> carries the status code and detail the
  handler raises.
\<close>

datatype api_error = RequestValidationError | HTTPException nat string

fun status_code :: "api_error \<Rightarrow> nat" where
  "status_code RequestValidationError = 422"
| "status_code (HTTPException c _) = c"

section \<open>Numbers\<close>

text \<open>Round half to even, the rule of Python's \<open>round\<close>.\<close>

definition round_half_even :: "rat \<Rightarrow> int" where
  "round_half_even y =
     (let f = \<lfloor>y\<rfloor>; r = y - of_int f
      in if r < 1 / 2 then f
         else if 1 / 2 < r then f + 1
         else if even f then f else f + 1)"

text \<open>\<open>round(x, ndigits)\<close> for a non-negative number of digits.\<close>

definition py_round :: "rat \<Rightarrow> nat \<Rightarrow> rat" where
  "py_round x ndigits = of_int (round_half_even (x * 10 ^ ndigits)) / 10 ^ ndigits"

text \<open>SQL \<open>AVG\<close> over the selected integer values: NULL on no rows.\<close>

definition sql_avg :: "int list \<Rightarrow> rat option" where
  "sql_avg vs = (if vs = [] then None else Some (of_int (sum_list vs) / of_nat (length vs)))"

text \<open>Python's \<open>x or 0.0\<close> on an optional float: \<open>None\<close> and \<open>0.0\<close> are both falsy.\<close>

definition or_zero :: "rat option \<Rightarrow> rat" where
  "or_zero a = (case a of None \<Rightarrow> 0 | Some v \<Rightarrow> if v = 0 then 0 else v)"

section \<open>Rating endpoints\<close>

text \<open>\<open>SELECT id FROM songs WHERE id = ?\<close> followed by \<open>fetchone()\<close>.\<close>

definition select_song :: "db \<Rightarrow> string \<Rightarrow> song_row option" where
  "select_song d sid = find (\<lambda>r. songs_id r = Some sid) (songs d)"

text \<open>The \<open>rating\<close> values of \<open>song_ratings WHERE song_id = ?\<close>.\<close>

definition ratings_of :: "db \<Rightarrow> string \<Rightarrow> int list" where
  "ratings_of d sid = map snd (filter (\<lambda>e. fst e = sid) (song_ratings d))"

text \<open>\<open>UPDATE songs SET star_rating = ? WHERE id = ?\<close>.\<close>

definition update_star_rating :: "rat \<Rightarrow> string \<Rightarrow> song_row list \<Rightarrow> song_row list" where
  "update_star_rating a sid rows =
     map (\<lambda>r. if songs_id r = Some sid then r\<lparr>songs_star_rating := Some a\<rparr> else r) rows"

text \<open>
  \<open>rate_song\<close>: the result and the database after the call. \<open>RatingRequest\<close> bounds
  the rating to 1..5 before the handler runs.
\<close>

definition rate_song :: "db \<Rightarrow> string \<Rightarrow> int \<Rightarrow> (api_error + RatingResponse) \<times> db" where
  "rate_song d sid rating =
     (if rating < 1 \<or> 5 < rating then (Inl RequestValidationError, d)
      else case select_song d sid of
        None \<Rightarrow> (Inl (HTTPException 404 ''Song not found''), d)
      | Some _ \<Rightarrow>
          (let d1 = d\<lparr>song_ratings := song_ratings d @ [(sid, rating)]\<rparr>;
               average_rating = or_zero (sql_avg (ratings_of d1 sid));
               total_ratings = int (length (ratings_of d1 sid));
               d2 = d1\<lparr>songs := update_star_rating average_rating sid (songs d1)\<rparr>
           in (Inr \<lparr>song_id = sid,
                     average_rating = py_round average_rating 2,
                     total_ratings = total_ratings\<rparr>, d2)))"

definition get_song_rating :: "db \<Rightarrow> string \<Rightarrow> api_error + RatingResponse" where
  "get_song_rating d sid =
     (case select_song d sid of
        None \<Rightarrow> Inl (HTTPException 404 ''Song not found'')
      | Some _ \<Rightarrow>
          (let average_rating = or_zero (sql_avg (ratings_of d sid));
               total_ratings = int (length (ratings_of d sid))
           in Inr \<lparr>song_id = sid,
                    average_rating = py_round average_rating 2,
                    total_ratings = total_ratings\<rparr>))"

section \<open>Listing and search\<close>

text \<open>
  \<open>Song(**song_dict)\<close>: validation fails on a row whose \<open>id\<close> or \<open>title\<close> is NULL.
  The handler renames the key \<open>class\<close> to \<open>class_\<close>, but the field \<open>class_\<close> is declared
  with \<open>alias="class"\<close> and is populated by its alias only, so the renamed key is ignored
  as an extra one and the field keeps its default \<open>None\<close>.
\<close>

definition to_Song :: "song_row \<Rightarrow> Song option" where
  "to_Song r =
     (case songs_id r of
        None \<Rightarrow> None
      | Some i \<Rightarrow>
          (case songs_title r of
             None \<Rightarrow> None
           | Some t \<Rightarrow>
               Some \<lparr>Song_id = i, Song_title = t,
                     Song_features = (songs_features r)\<lparr>class_ := None\<rparr>,
                     Song_star_rating = songs_star_rating r\<rparr>))"

text \<open>
  The loop over \<open>rows\<close> that builds the response list; any validation failure is caught
  by \<open>except Exception\<close> and answered with status 500.
\<close>

definition build_songs :: "song_row list \<Rightarrow> api_error + Song list" where
  "build_songs rows =
     (case those (map to_Song rows) of
        None \<Rightarrow> Inl (HTTPException 500 ''Internal server error'')
      | Some ss \<Rightarrow> Inr ss)"

text \<open>
  \<open>ORDER BY title\<close>: ascending in the column's BINARY collation (bytewise comparison),
  NULL before every text. SQL leaves the order of rows with equal keys open; the model
  keeps them in the order of the table scan (a stable sort of the stored rows).
\<close>

definition order_by_title :: "song_row list \<Rightarrow> song_row list" where
  "order_by_title rows = sort_key songs_title rows"

definition get_all_songs :: "db \<Rightarrow> int \<Rightarrow> int \<Rightarrow> api_error + SongResponse" where
  "get_all_songs d page per_page =
     (if page < 1 \<or> per_page < 1 \<or> 100 < per_page then Inl RequestValidationError
      else
        (let total = int (length (songs d));
             offset = (page - 1) * per_page;
             total_pages = (total + per_page - 1) div per_page;
             rows = take (nat per_page) (drop (nat offset) (order_by_title (songs d)))
         in case build_songs rows of
              Inl e \<Rightarrow> Inl e
            | Inr ss \<Rightarrow>
                Inr \<lparr>resp_songs = ss, resp_total = total, resp_page = page,
                     resp_per_page = per_page, resp_total_pages = total_pages\<rparr>))"

text \<open>SQL \<open>LOWER\<close>: only the ASCII letters A to Z are folded.\<close>

definition sql_lower_char :: "char \<Rightarrow> char" where
  "sql_lower_char c =
     (if CHR ''A'' \<le> c \<and> c \<le> CHR ''Z'' then char_of (of_char c + (32 :: nat)) else c)"

definition sql_lower :: "string \<Rightarrow> string" where
  "sql_lower s = map sql_lower_char s"

text \<open>
  SQL \<open>LIKE\<close> without an ESCAPE clause, pattern first: \<open>%\<close> matches any run of
  characters, \<open>_\<close> matches exactly one, every other character matches itself up to the
  case of ASCII letters.
\<close>

fun like :: "string \<Rightarrow> string \<Rightarrow> bool" where
  "like [] [] = True"
| "like [] (c # cs) = False"
| "like (p # ps) [] = (p = CHR ''%'' \<and> like ps [])"
| "like (p # ps) (c # cs) =
     (if p = CHR ''%'' then like ps (c # cs) \<or> like (p # ps) cs
      else if p = CHR ''_'' then like ps cs
      else sql_lower_char p = sql_lower_char c \<and> like ps cs)"

text \<open>\<open>WHERE LOWER(title) LIKE LOWER(?)\<close> with the parameter \<open>f"%{title}%"\<close>; NULL never matches.\<close>

definition title_matches :: "string \<Rightarrow> song_row \<Rightarrow> bool" where
  "title_matches title r =
     (case songs_title r of
        None \<Rightarrow> False
      | Some t \<Rightarrow> like (sql_lower (''%'' @ title @ ''%'')) (sql_lower t))"

definition search_songs_by_title :: "db \<Rightarrow> string \<Rightarrow> api_error + Song list" where
  "search_songs_by_title d title =
     build_songs (order_by_title (filter (title_matches title) (songs d)))"

section \<open>Ingestion\<close>


















section \<open>Notions used by the properties\<close>




text \<open>\<open>q\<close> occurs in \<open>t\<close> as a literal substring, up to the case of ASCII letters.\<close>

fun contains_ci :: "string \<Rightarrow> string \<Rightarrow> bool" where
  "contains_ci q [] = (q = [])"
| "contains_ci q (c # cs) =
     (take (length q) (sql_lower (c # cs)) = sql_lower q \<or> contains_ci q cs)"

subsection \<open>Sample data\<close>

definition no_features :: features where
  "no_features =
     \<lparr>danceability = None, energy = None, key = None, loudness = None, mode = None,
      acousticness = None, instrumentalness = None, liveness = None, valence = None,
      tempo = None, duration_ms = None, time_signature = None, num_bars = None,
      num_sections = None, num_segments = None, class_ = None\<rparr>"

definition mk_row :: "string \<Rightarrow> string \<Rightarrow> rat option \<Rightarrow> song_row" where
  "mk_row i t s =
     \<lparr>songs_id = Some i, songs_title = Some t, songs_features = no_features,
      songs_star_rating = s\<rparr>"

definition mk_Song :: "string \<Rightarrow> string \<Rightarrow> rat option \<Rightarrow> Song" where
  "mk_Song i t s =
     \<lparr>Song_id = i, Song_title = t, Song_features = no_features, Song_star_rating = s\<rparr>"


text \<open>Three songs, no rating yet.\<close>

definition db3 :: db where
  "db3 = \<lparr>songs = [mk_row ''s1'' ''abc'' None, mk_row ''s2'' ''3AM'' None,
                  mk_row ''s3'' ''Zebra'' None],
          song_ratings = []\<rparr>"

text \<open>Song \<open>s2\<close> rated 5 and 5.\<close>

definition db_rated :: db where
  "db_rated = \<lparr>songs = [mk_row ''s1'' ''abc'' None, mk_row ''s2'' ''3AM'' (Some 5)],
               song_ratings = [(''s2'', 5), (''s2'', 5)]\<rparr>"

text \<open>Two songs of one title, the greater id stored first.\<close>

definition db_ties :: db where
  "db_ties = \<lparr>songs = [mk_row ''b'' ''Intro'' None, mk_row ''a'' ''Intro'' None],
              song_ratings = []\<rparr>"


section \<open>Properties of the rating endpoints\<close>

lemma round_half_even_0: "round_half_even 0 = 0"
  by (simp add: round_half_even_def)

lemma py_round_0: "py_round 0 n = 0"
  by (simp add: py_round_def round_half_even_0)

text \<open>
  Claim C7. For a stored song without any entry in \<open>song_ratings\<close>, \<open>get_song_rating\<close>
  succeeds and answers the average 0.0 and the count 0.
\<close>

theorem get_song_rating_no_events:
  assumes "select_song d sid \<noteq> None" and "ratings_of d sid = []"
  shows "get_song_rating d sid = Inr \<lparr>song_id = sid, average_rating = 0, total_ratings = 0\<rparr>"
  using assms by (auto simp: get_song_rating_def sql_avg_def or_zero_def py_round_0)

theorem get_song_rating_no_events_witness:
  "select_song db3 ''s2'' \<noteq> None \<and> ratings_of db3 ''s2'' = [] \<and>
   get_song_rating db3 ''s2'' = Inr \<lparr>song_id = ''s2'', average_rating = 0, total_ratings = 0\<rparr>"
proof -
  have a: "select_song db3 ''s2'' \<noteq> None" by code_simp
  have b: "ratings_of db3 ''s2'' = []" by code_simp
  from get_song_rating_no_events [OF a b] a b show ?thesis by simp
qed

text \<open>
  Claim C5. For a \<open>song_id\<close> that no stored song has, \<open>rate_song\<close> fails and leaves
  the database as it was, whatever the rating; with a rating in 1..5 the failure is the
  404 "Song not found", and \<open>get_song_rating\<close> fails with the same 404.
\<close>

theorem unknown_song_not_found:
  assumes "select_song d sid = None"
  shows "snd (rate_song d sid v) = d \<and>
         isl (fst (rate_song d sid v)) \<and>
         (1 \<le> v \<and> v \<le> 5 \<longrightarrow>
            rate_song d sid v = (Inl (HTTPException 404 ''Song not found''), d)) \<and>
         get_song_rating d sid = Inl (HTTPException 404 ''Song not found'')"
  using assms by (auto simp: rate_song_def get_song_rating_def)

theorem unknown_song_not_found_witness:
  "select_song db_rated ''nonexistent_song_id_12345'' = None \<and>
   rate_song db_rated ''nonexistent_song_id_12345'' 5 =
     (Inl (HTTPException 404 ''Song not found''), db_rated) \<and>
   get_song_rating db_rated ''nonexistent_song_id_12345'' =
     Inl (HTTPException 404 ''Song not found'')"
proof -
  have a: "select_song db_rated ''nonexistent_song_id_12345'' = None" by code_simp
  from unknown_song_not_found [OF a, of 5] a show ?thesis by simp
qed












subsection \<open>What \<open>rate_song\<close> stores and what it returns\<close>






section \<open>Properties of listing and search\<close>

lemma those_eq_Some: "those xs = Some ys \<longleftrightarrow> xs = map Some ys"
proof (induction xs arbitrary: ys)
  case Nil
  then show ?case by auto
next
  case (Cons x xs)
  then show ?case by (cases x; cases ys) (auto split: option.splits)
qed

lemma those_map_Some: "those (map Some ys) = Some ys"
  by (induction ys) simp_all

lemma build_songs_Inr: "build_songs rows = Inr ss \<longleftrightarrow> map to_Song rows = map Some ss"
  by (auto simp: build_songs_def those_eq_Some those_map_Some split: option.splits)





lemma get_all_songs_Inr:
  assumes "1 \<le> page" "1 \<le> per_page" "per_page \<le> 100"
  shows "get_all_songs d page per_page = Inr resp \<longleftrightarrow>
     (map to_Song (take (nat per_page) (drop (nat ((page - 1) * per_page)) (order_by_title (songs d))))
        = map Some (resp_songs resp) \<and>
      resp_total resp = int (length (songs d)) \<and> resp_page resp = page \<and>
      resp_per_page resp = per_page \<and>
      resp_total_pages resp = (int (length (songs d)) + per_page - 1) div per_page)"
proof -
  let ?rows = "take (nat per_page) (drop (nat ((page - 1) * per_page)) (order_by_title (songs d)))"
  show ?thesis
  proof (cases "build_songs ?rows")
    case (Inl e)
    then have "map to_Song ?rows \<noteq> map Some (resp_songs resp)"
      using build_songs_Inr [of ?rows "resp_songs resp"] by simp
    with Inl assms show ?thesis by (simp add: get_all_songs_def Let_def)
  next
    case (Inr ss)
    then have m: "map to_Song ?rows = map Some ss" by (simp add: build_songs_Inr)
    have inj: "map Some ss = map Some (resp_songs resp) \<longleftrightarrow> ss = resp_songs resp"
      by (simp add: inj_map_eq_map)
    from Inr assms show ?thesis
      unfolding get_all_songs_def Let_def m
      by (cases resp) (auto simp: inj)
  qed
qed








lemma to_Song_title: "to_Song r = Some s \<Longrightarrow> songs_title r = Some (Song_title s)"
  by (auto simp: to_Song_def split: option.splits)

lemma built_titles:
  "map to_Song rows = map Some ss \<Longrightarrow> map songs_title rows = map Some (map Song_title ss)"
proof (induction rows arbitrary: ss)
  case Nil
  then show ?case by simp
next
  case (Cons r rows)
  then obtain s ss' where "ss = s # ss'" "to_Song r = Some s" "map to_Song rows = map Some ss'"
    by (cases ss) auto
  with Cons.IH [of ss'] show ?case by (simp add: to_Song_title)
qed

lemma sorted_map_Some: "sorted (map Some xs) \<longleftrightarrow> sorted xs"
  by (simp add: sorted_map)

lemma sorted_titles_order_by_title: "sorted (map songs_title (order_by_title rows))"
  by (simp add: order_by_title_def)

lemma sorted_titles_page:
  "sorted (map songs_title (take n (drop k (order_by_title rows))))"
  using sorted_titles_order_by_title [of rows]
  by (simp add: take_map [symmetric] drop_map [symmetric] sorted_wrt_take sorted_wrt_drop
      del: take_map drop_map)

text \<open>
  Claim C4, as the code has it. The items of \<open>get_all_songs\<close> and of
  \<open>search_songs_by_title\<close> are in ascending order of title; rows of one title keep the
  order in which the table holds them.
\<close>

theorem items_sorted_by_title:
  "(get_all_songs d page per_page = Inr resp \<longrightarrow> sorted (map Song_title (resp_songs resp))) \<and>
   (search_songs_by_title d q = Inr ss \<longrightarrow> sorted (map Song_title ss)) \<and>
   filter (\<lambda>r. songs_title r = t) (order_by_title rows) = filter (\<lambda>r. songs_title r = t) rows"
proof (intro conjI impI)
  assume a: "get_all_songs d page per_page = Inr resp"
  then have v: "1 \<le> page" "1 \<le> per_page" "per_page \<le> 100"
    by (auto simp: get_all_songs_def split: if_splits)
  from a have "map to_Song (take (nat per_page) (drop (nat ((page - 1) * per_page))
      (order_by_title (songs d)))) = map Some (resp_songs resp)"
    using get_all_songs_Inr [OF v] by blast
  from built_titles [OF this] sorted_titles_page [of "nat per_page" "nat ((page - 1) * per_page)" "songs d"]
  show "sorted (map Song_title (resp_songs resp))"
    by (simp only: sorted_map_Some)
next
  assume "search_songs_by_title d q = Inr ss"
  then have "map to_Song (order_by_title (filter (title_matches q) (songs d))) = map Some ss"
    by (simp add: search_songs_by_title_def build_songs_Inr)
  from built_titles [OF this] sorted_titles_order_by_title [of "filter (title_matches q) (songs d)"]
  show "sorted (map Song_title ss)"
    by (simp only: sorted_map_Some)
next
  show "filter (\<lambda>r. songs_title r = t) (order_by_title rows) = filter (\<lambda>r. songs_title r = t) rows"
    unfolding order_by_title_def by (rule sort_key_stable)
qed

text \<open>
  Claim C4 as stated fails: two songs titled "Intro", the one with id "b" stored before the
  one with id "a", are listed and found in the order b, a.
\<close>

theorem ties_not_ordered_by_id:
  "get_all_songs db_ties 1 10 =
     Inr \<lparr>resp_songs = [mk_Song ''b'' ''Intro'' None, mk_Song ''a'' ''Intro'' None],
          resp_total = 2, resp_page = 1, resp_per_page = 10, resp_total_pages = 1\<rparr> \<and>
   search_songs_by_title db_ties ''intro'' =
     Inr [mk_Song ''b'' ''Intro'' None, mk_Song ''a'' ''Intro'' None] \<and>
   \<not> ''b'' \<le> ''a''"
  by code_simp

theorem items_sorted_by_title_witness:
  "get_all_songs db3 1 2 =
     Inr \<lparr>resp_songs = [mk_Song ''s2'' ''3AM'' None, mk_Song ''s3'' ''Zebra'' None],
          resp_total = 3, resp_page = 1, resp_per_page = 2, resp_total_pages = 2\<rparr> \<and>
   sorted [''3AM'', ''Zebra''] \<and>
   search_songs_by_title db3 ''A'' =
     Inr [mk_Song ''s2'' ''3AM'' None, mk_Song ''s3'' ''Zebra'' None, mk_Song ''s1'' ''abc'' None] \<and>
   sorted [''3AM'', ''Zebra'', ''abc'']"
proof -
  have a: "get_all_songs db3 1 2 =
     Inr \<lparr>resp_songs = [mk_Song ''s2'' ''3AM'' None, mk_Song ''s3'' ''Zebra'' None],
          resp_total = 3, resp_page = 1, resp_per_page = 2, resp_total_pages = 2\<rparr>" by code_simp
  have b: "search_songs_by_title db3 ''A'' =
     Inr [mk_Song ''s2'' ''3AM'' None, mk_Song ''s3'' ''Zebra'' None, mk_Song ''s1'' ''abc'' None]"
    by code_simp
  from items_sorted_by_title [of db3 1 2 _ "''A''" _ "None" "[]"] a b show ?thesis
    by (simp add: mk_Song_def)
qed







text \<open>
  Claim C9. The query goes into the LIKE pattern unescaped: \<open>a_c\<close> finds the title "abc"
  and \<open>3%M\<close> finds "3AM", though neither title contains the query as a substring.
\<close>

theorem like_wildcards_in_query:
  "search_songs_by_title db3 ''a_c'' = Inr [mk_Song ''s1'' ''abc'' None] \<and>
   \<not> contains_ci ''a_c'' ''abc'' \<and>
   search_songs_by_title db3 ''3%M'' = Inr [mk_Song ''s2'' ''3AM'' None] \<and>
   \<not> contains_ci ''3%M'' ''3AM''"
  by code_simp

section \<open>Properties of ingestion\<close>












end
